theory Spec2Isabelle
  imports Complex_Main
begin

section \<open>Spaced-repetition and adaptive-review engine\<close>

text \<open>
  The engine is written in TypeScript and JavaScript. A JavaScript \<open>number\<close> is modelled
  as a \<^typ>\<open>real\<close>: every value is finite and arithmetic is exact, so the rounding of
  IEEE doubles and the infinities are outside the model. \<open>NaN\<close> is modelled where the
  code can produce it from well-formed data, in the priority score of the item selector:
  a number that may be \<open>NaN\<close> is a \<^typ>\<open>real option\<close>, \<^const>\<open>None\<close> being
  \<open>NaN\<close>. \<open>Math.round\<close> rounds to the nearest integer with ties towards plus
  infinity, which is \<^const>\<open>round\<close>.
  A \<open>Date\<close> is its time value, an integer number of milliseconds since the epoch, and
  the clock (\<open>new Date()\<close>, \<open>Date.now()\<close>) is an explicit argument \<open>now\<close>.
\<close>

subsection \<open>Errors\<close>

text \<open>
  The only \<open>throw\<close> of the engine is the quality check of
  \<open>SM2Algorithm.calculateNextReview\<close>; it is the \<open>InvalidInput\<close> of the error
  taxonomy. \<open>NoEligibleItems\<close> is the second error of the taxonomy.
\<close>

datatype error = InvalidInput | NoEligibleItems

subsection \<open>Review scheduler: \<open>calculateSM2\<close> of \<open>srs.ts\<close>\<close>

record srs_params =
  interval :: real
  repetitions :: real
  easeFactor :: real

text \<open>
  The ease-factor update shared by both schedulers:
  \<open>easeFactor + (0.1 - (5 - quality) * (0.08 + (5 - quality) * 0.02))\<close>, set to
  \<open>1.3\<close> when it is below \<open>1.3\<close>.
\<close>

definition updateEaseFactor :: "real \<Rightarrow> real \<Rightarrow> real" where
  "updateEaseFactor quality ef =
     (let newEaseFactor = ef + (0.1 - (5 - quality) * (0.08 + (5 - quality) * 0.02))
      in if newEaseFactor < 1.3 then 1.3 else newEaseFactor)"

text \<open>
  \<open>calculateSM2 (quality, repetitions, easeFactor, interval)\<close>: the new ease factor is
  computed first, and the interval of a third or later success is the old interval times
  the \<^emph>\<open>new\<close> ease factor. There is no check of \<open>quality\<close>.
\<close>

definition calculateSM2 :: "real \<Rightarrow> real \<Rightarrow> real \<Rightarrow> real \<Rightarrow> srs_params" where
  "calculateSM2 quality reps ef ivl =
     (let newEaseFactor = updateEaseFactor quality ef
      in if quality < 3 then
           \<lparr>interval = 1, repetitions = 0, easeFactor = newEaseFactor\<rparr>
         else
           (let newRepetitions = reps + 1;
                newInterval =
                  (if newRepetitions = 1 then 1
                   else if newRepetitions = 2 then 6
                   else of_int (round (ivl * newEaseFactor)))
            in \<lparr>interval = newInterval, repetitions = newRepetitions,
                 easeFactor = newEaseFactor\<rparr>))"

text \<open>
  A sequence of reviews of one card: each review is scheduled by \<open>calculateSM2\<close> from
  the repetitions, ease factor and interval that the previous review returned.
\<close>

fun reviewCards :: "srs_params \<Rightarrow> real list \<Rightarrow> srs_params" where
  "reviewCards c [] = c"
| "reviewCards c (quality # qs) =
     reviewCards (calculateSM2 quality (repetitions c) (easeFactor c) (interval c)) qs"

subsection \<open>Review scheduler: \<open>SM2Algorithm.calculateNextReview\<close> of the engine\<close>

record review_params = srs_params +
  nextReviewDate :: int

text \<open>
  \<open>calculateNextReviewDate\<close>: \<open>setDate (getDate () + daysFromNow)\<close> on today's date,
  that is, now plus that many days of \<open>86400000\<close> milliseconds (calendar days of equal
  length). Its argument is always a whole number of days (\<open>1\<close>, \<open>6\<close> or a rounded
  value).
\<close>

definition calculateNextReviewDate :: "int \<Rightarrow> real \<Rightarrow> int" where
  "calculateNextReviewDate now daysFromNow = now + \<lfloor>daysFromNow\<rfloor> * 86400000"

text \<open>
  \<open>calculateNextReview (quality, repetitions, previousInterval, easeFactor)\<close>: the
  quality is checked first; the interval of a third or later success is the old interval
  times the \<^emph>\<open>old\<close> ease factor, and the ease factor is updated afterwards.
\<close>

definition calculateNextReview ::
  "int \<Rightarrow> real \<Rightarrow> real \<Rightarrow> real \<Rightarrow> real \<Rightarrow> error + review_params" where
  "calculateNextReview now quality reps previousInterval ef =
     (if quality < 0 \<or> quality > 5 then Inl InvalidInput
      else
        (let (newInterval, newRepetitions) =
               (if quality < 3 then (1, 0)
                else
                  (let newRepetitions = reps + 1
                   in if newRepetitions = 1 then (1, newRepetitions)
                      else if newRepetitions = 2 then (6, newRepetitions)
                      else (of_int (round (previousInterval * ef)), newRepetitions)));
             newEaseFactor = updateEaseFactor quality ef
         in Inr \<lparr>interval = newInterval, repetitions = newRepetitions,
                  easeFactor = newEaseFactor,
                  nextReviewDate = calculateNextReviewDate now newInterval\<rparr>))"

text \<open>
  A sequence of reviews of one item through the engine: each review is scheduled by
  \<open>calculateNextReview\<close> from the repetitions, interval and ease factor that the previous
  review returned; the first exception ends the run.
\<close>

fun reviewItems :: "int \<Rightarrow> review_params \<Rightarrow> real list \<Rightarrow> error + review_params" where
  "reviewItems now item [] = Inr item"
| "reviewItems now item (quality # qs) =
     (case calculateNextReview now quality (repetitions item) (interval item) (easeFactor item) of
        Inl e \<Rightarrow> Inl e
      | Inr item' \<Rightarrow> reviewItems now item' qs)"

subsection \<open>Difficulty adjuster\<close>

text \<open>
  The performance sample handed to the adjuster. \<open>previousAverageTime\<close> may be absent
  (\<open>undefined\<close>).
\<close>

record performance_data =
  accuracy :: real
  responseTime :: real
  attempts :: real
  previousAverageTime :: "real option"

text \<open>
  The stored learning item (\<open>getLearningItemData\<close>); \<open>itemAttempts\<close> is its
  \<open>attempts\<close>. The adjuster reads its \<open>averageTime\<close>.
\<close>

record item_data = srs_params +
  lastReviewed :: int
  itemAttempts :: real
  averageTime :: real

text \<open>
  The result \<open>{...item, ...adjustments, lastAdjusted}\<close>: the item, and the adjustments
  that were set (an adjustment that was not set is absent).
\<close>

record adjusted_item = item_data +
  difficultyIncrease :: "real option"
  difficultyDecrease :: "real option"
  timePressure :: "real option"
  lastAdjusted :: int

text \<open>\<open>performanceThresholds\<close>: \<open>easy\<close>, \<open>medium\<close> and \<open>hard\<close>.\<close>

definition threshold_easy :: real where "threshold_easy = 0.9"
definition threshold_medium :: real where "threshold_medium = 0.7"
definition threshold_hard :: real where "threshold_hard = 0.5"

definition calculateDifficultyIncrease :: "item_data \<Rightarrow> performance_data \<Rightarrow> real" where
  "calculateDifficultyIncrease item p =
     (let increase = 0.1;
          increase = (if accuracy p > 0.95 then increase + 0.05 else increase);
          increase = (if responseTime p < averageTime item * 0.7 then increase + 0.05 else increase)
      in min 0.3 increase)"

definition calculateDifficultyDecrease :: "item_data \<Rightarrow> performance_data \<Rightarrow> real" where
  "calculateDifficultyDecrease item p =
     (let decrease = 0.15;
          decrease = (if accuracy p < 0.3 then decrease + 0.1 else decrease);
          decrease = (if responseTime p > averageTime item * 1.5 then decrease + 0.1 else decrease)
      in min 0.4 decrease)"

text \<open>
  \<open>if (!previousAverageTime) return 0\<close>: an absent or zero average gives \<open>0\<close>, so
  the division below it never divides by zero.
\<close>

definition calculateTimePressureAdjustment :: "performance_data \<Rightarrow> real" where
  "calculateTimePressureAdjustment p =
     (case previousAverageTime p of
        None \<Rightarrow> 0
      | Some prev \<Rightarrow>
          if prev = 0 then 0
          else
            (let ratio = responseTime p / prev
             in if ratio > 2 then - 0.1
                else if ratio < 0.5 then 0.1
                else 0))"

definition adjustItemDifficulty :: "int \<Rightarrow> item_data \<Rightarrow> performance_data \<Rightarrow> adjusted_item" where
  "adjustItemDifficulty now item p =
     item_data.extend item
       \<lparr>difficultyIncrease =
          (if accuracy p \<ge> threshold_easy then Some (calculateDifficultyIncrease item p) else None),
        difficultyDecrease =
          (if accuracy p \<ge> threshold_easy then None
           else if accuracy p \<le> threshold_hard then Some (calculateDifficultyDecrease item p)
           else None),
        timePressure =
          (if attempts p > 1 then Some (calculateTimePressureAdjustment p) else None),
        lastAdjusted = now\<rparr>"

text \<open>
  \<open>adjustSessionDifficulty\<close>. \<open>sessionAdjustment\<close> is the local \<open>adjustment\<close> just
  before the final \<open>Math.max(0.7, Math.min(1.3, adjustment))\<close>; \<open>reduce\<close> from \<open>0\<close>
  is a left fold.
\<close>

definition averageAccuracy :: "performance_data list \<Rightarrow> real" where
  "averageAccuracy recentPerformance =
     foldl (\<lambda>sum p. sum + accuracy p) 0 recentPerformance / real (length recentPerformance)"

definition sessionAdjustment :: "performance_data list \<Rightarrow> real" where
  "sessionAdjustment recentPerformance =
     (let adjustment = 1.0
      in if averageAccuracy recentPerformance > 0.9 then adjustment * 1.1
         else if averageAccuracy recentPerformance < 0.6 then adjustment * 0.9
         else adjustment)"

definition adjustSessionDifficulty :: "performance_data list \<Rightarrow> real" where
  "adjustSessionDifficulty recentPerformance =
     (if length recentPerformance = 0 then 1.0
      else max 0.7 (min 1.3 (sessionAdjustment recentPerformance)))"

subsection \<open>Item selector\<close>

text \<open>
  A candidate item of the catalogue. \<open>dueDate\<close> is the item's \<open>nextReviewDate\<close>,
  read only when the item is not due. \<open>contentId\<close>, \<open>curriculumPriority\<close> and
  \<open>dueDate\<close> may be absent (\<open>undefined\<close>); an absent \<open>isNew\<close> is false.
\<close>

record candidate =
  itemId :: nat
  contentType :: string
  contentId :: "nat option"
  isDueForReview :: bool
  dueDate :: "int option"
  curriculumPriority :: "real option"
  isNew :: bool

text \<open>
  The user's learning data; \<open>userJlptLevel\<close> is its \<open>jlptLevel\<close>.
  \<open>itemPerformance\<close> maps an item's id to the accuracy of its performance record, when
  there is one; of the recent items only the content type is read.
\<close>

record user_data =
  userJlptLevel :: int
  characterWeakness :: real
  wordWeakness :: real
  grammarWeakness :: real
  preferNovelty :: bool
  recentItems :: "candidate list"
  itemPerformance :: "nat \<Rightarrow> real option"

text \<open>A scored item; its \<open>priorityScore\<close> may be \<open>NaN\<close>.\<close>

record scored_item = candidate +
  priorityScore :: "real option"

text \<open>\<open>priorityFactors\<close>.\<close>

definition factor_dueForReview :: real where "factor_dueForReview = 0.3"
definition factor_userWeakness :: real where "factor_userWeakness = 0.25"
definition factor_curriculumPriority :: real where "factor_curriculumPriority = 0.2"
definition factor_varietyBalance :: real where "factor_varietyBalance = 0.15"
definition factor_noveltyPreference :: real where "factor_noveltyPreference = 0.1"

text \<open>\<open>a || b\<close> on a number that may be absent: \<open>b\<close> when \<open>a\<close> is absent or zero.\<close>

definition or_default :: "real option \<Rightarrow> real \<Rightarrow> real" where
  "or_default a b = (case a of None \<Rightarrow> b | Some v \<Rightarrow> if v = 0 then b else v)"

definition weaknessMap :: "user_data \<Rightarrow> string \<Rightarrow> real option" where
  "weaknessMap userData t =
     (if t = ''character'' then Some (characterWeakness userData)
      else if t = ''word'' then Some (wordWeakness userData)
      else if t = ''grammar'' then Some (grammarWeakness userData)
      else None)"

definition calculateWeaknessScore :: "candidate \<Rightarrow> user_data \<Rightarrow> real" where
  "calculateWeaknessScore item userData =
     (let baseWeakness = or_default (weaknessMap userData (contentType item)) 0
      in case itemPerformance userData (itemId item) of
           Some acc \<Rightarrow>
             (let accuracyAdjustment = (1 - acc) * 30
              in min 100 (baseWeakness + accuracyAdjustment))
         | None \<Rightarrow> baseWeakness)"

definition calculateVarietyScore :: "candidate \<Rightarrow> candidate list \<Rightarrow> real" where
  "calculateVarietyScore item recent =
     (let similarCount = length (filter (\<lambda>recentItem. contentType recentItem = contentType item) recent)
      in max 0 (30 - real similarCount * 10))"

text \<open>
  \<open>score += v\<close> on a score that may be \<open>NaN\<close>: \<open>NaN\<close> stays \<open>NaN\<close>.
\<close>

definition add_score :: "real option \<Rightarrow> real \<Rightarrow> real option" where
  "add_score score v = map_option (\<lambda>s. s + v) score"

text \<open>
  \<open>calculateItemPriority\<close>. For an item that is not due,
  \<open>item.nextReviewDate - new Date()\<close> is \<open>NaN\<close> when the item has no
  \<open>nextReviewDate\<close>; then \<open>Math.max (0, 50 - daysUntilDue)\<close> is \<open>NaN\<close> and so is
  the score, whatever is added to it later.
\<close>

definition calculateItemPriority :: "int \<Rightarrow> candidate \<Rightarrow> user_data \<Rightarrow> real option" where
  "calculateItemPriority now item userData =
     (let score = Some 0;
          score =
            (if isDueForReview item then add_score score (factor_dueForReview * 100)
             else
               (case dueDate item of
                  None \<Rightarrow> None
                | Some due \<Rightarrow>
                    (let daysUntilDue = real_of_int (due - now) / (1000 * 60 * 60 * 24)
                     in add_score score (factor_dueForReview * max 0 (50 - daysUntilDue)))));
          weaknessScore = calculateWeaknessScore item userData;
          score = add_score score (factor_userWeakness * weaknessScore);
          score = add_score score (factor_curriculumPriority * or_default (curriculumPriority item) 50);
          varietyScore = calculateVarietyScore item (recentItems userData);
          score = add_score score (factor_varietyBalance * varietyScore)
      in if preferNovelty userData then
           (let noveltyScore = (if isNew item then 20 else 0)
            in add_score score (factor_noveltyPreference * noveltyScore))
         else score)"

text \<open>
  \<open>Array.prototype.slice (0, end)\<close> for an integer \<open>end\<close>: a negative \<open>end\<close> counts
  from the end of the array.
\<close>

definition slice0 :: "'a list \<Rightarrow> int \<Rightarrow> 'a list" where
  "slice0 xs end =
     (if end < 0 then take (length xs - nat (- end)) xs else take (nat end) xs)"

text \<open>
  The comparator \<open>(a, b) => b.priorityScore - a.priorityScore\<close>; its result is
  \<open>NaN\<close> when either score is.
\<close>

definition compareScores :: "scored_item \<Rightarrow> scored_item \<Rightarrow> real option" where
  "compareScores a b =
     (case priorityScore b of
        None \<Rightarrow> None
      | Some sb \<Rightarrow> (case priorityScore a of None \<Rightarrow> None | Some sa \<Rightarrow> Some (sb - sa)))"

text \<open>
  \<open>Array.prototype.sort (comparefn)\<close>. The sort is stable and takes a \<open>NaN\<close> result
  of the comparator as \<open>+0\<close>, so two items compare as equal when either score is
  \<open>NaN\<close>. It is modelled as the stable insertion sort: from the last element to the
  first, each element is put before the first element of the sorted rest that it does not
  have to follow. With a consistent comparator that is the sorted order every stable sort
  returns; with \<open>NaN\<close> scores the comparator is not consistent and the order is the one
  these insertions give.
\<close>

definition nan_as_zero :: "real option \<Rightarrow> real" where
  "nan_as_zero v = (case v of None \<Rightarrow> 0 | Some r \<Rightarrow> r)"

fun insert_sorted :: "('a \<Rightarrow> 'a \<Rightarrow> real option) \<Rightarrow> 'a \<Rightarrow> 'a list \<Rightarrow> 'a list" where
  "insert_sorted comparefn x [] = [x]"
| "insert_sorted comparefn x (y # ys) =
     (if nan_as_zero (comparefn x y) \<le> 0 then x # y # ys
      else y # insert_sorted comparefn x ys)"

definition array_sort :: "('a \<Rightarrow> 'a \<Rightarrow> real option) \<Rightarrow> 'a list \<Rightarrow> 'a list" where
  "array_sort comparefn xs = foldr (insert_sorted comparefn) xs []"

text \<open>
  \<open>selectStudyItems\<close>. The user's data and the candidate items, which the source reads
  from its store, are arguments. When \<open>itemCount\<close> is omitted it is \<open>10\<close>.
\<close>

definition default_itemCount :: int where "default_itemCount = 10"

definition selectStudyItems :: "int \<Rightarrow> user_data \<Rightarrow> candidate list \<Rightarrow> int \<Rightarrow> scored_item list" where
  "selectStudyItems now userData candidateItems itemCount =
     (let scoredItems =
            map (\<lambda>item. candidate.extend item
                   \<lparr>priorityScore = calculateItemPriority now item userData\<rparr>) candidateItems;
          scoredItems = array_sort compareScores scoredItems
      in slice0 scoredItems itemCount)"



subsection \<open>Session coordinator\<close>

record user_state =
  currentStreak :: int
  totalItemsStudied :: int
  accuracyRate :: real
  jlptLevel :: int

record 'm enhanced_item = scored_item +
  metadata :: 'm

record session_record =
  recordId :: string
  recordUserId :: string
  recordItems :: "nat list"
  startedAt :: int

record session_recommendations =
  itemCount :: nat
  estimatedTime :: int
  focus :: string
  tips :: "string list"

record 'm study_session =
  sessionId :: string
  items :: "'m enhanced_item list"
  userState :: user_state
  recommendations :: session_recommendations

text \<open>Decimal digits of a number, for the template string \<open>session_${Date.now()}\<close>.\<close>

definition digit :: "nat \<Rightarrow> char" where
  "digit d = ''0123456789'' ! d"

fun show_nat :: "nat \<Rightarrow> string" where
  "show_nat n =
     (if n < 10 then [digit n]
      else show_nat (n div 10) @ [digit (n mod 10)])"

declare show_nat.simps [simp del]

definition show_int :: "int \<Rightarrow> string" where
  "show_int i = (if i < 0 then CHR ''-'' # show_nat (nat (- i)) else show_nat (nat i))"

definition createStudySessionRecord :: "int \<Rightarrow> string \<Rightarrow> 'm enhanced_item list \<Rightarrow> session_record" where
  "createStudySessionRecord now userId its =
     \<lparr>recordId = ''session_'' @ show_int now, recordUserId = userId,
      recordItems = map itemId its, startedAt = now\<rparr>"

text \<open>
  \<open>determineSessionFocus\<close>: \<open>typeCounts\<close> is an object keyed by content type, whose
  entries are listed in the order the keys were first set; the entries are sorted (stably)
  by descending count and the first key is the focus, \<open>mixed\<close> when there is none.
\<close>

fun countType :: "string \<Rightarrow> (string \<times> nat) list \<Rightarrow> (string \<times> nat) list" where
  "countType t [] = [(t, 1)]"
| "countType t ((k, c) # rest) =
     (if k = t then (k, c + 1) # rest else (k, c) # countType t rest)"

definition typeCounts :: "'m enhanced_item list \<Rightarrow> (string \<times> nat) list" where
  "typeCounts its = foldl (\<lambda>counts item. countType (contentType item) counts) [] its"

definition determineSessionFocus :: "'m enhanced_item list \<Rightarrow> string" where
  "determineSessionFocus its =
     (case sort_key (\<lambda>e. - int (snd e)) (typeCounts its) of
        [] \<Rightarrow> ''mixed''
      | focusedType # _ \<Rightarrow> fst focusedType)"

definition generateSessionTips :: "user_state \<Rightarrow> string list" where
  "generateSessionTips us =
     (let tips = [];
          tips = (if currentStreak us > 0 \<and> currentStreak us mod 7 = 0
                  then tips @ [''Great streak! Keep it up!''] else tips);
          tips = (if accuracyRate us < 80
                  then tips @ [''Focus on accuracy over speed''] else tips)
      in tips)"

definition generateSessionRecommendations ::
  "user_state \<Rightarrow> 'm enhanced_item list \<Rightarrow> session_recommendations" where
  "generateSessionRecommendations us its =
     \<lparr>itemCount = length its,
      estimatedTime = round (real (length its) * 2.5),
      focus = determineSessionFocus its,
      tips = generateSessionTips us\<rparr>"

text \<open>
  \<open>initializeStudySession\<close>. The stored data the source fetches (the user's state, the
  selector's user data and candidate items) and the metadata manager's lookup
  \<open>getContentMetadata\<close> are arguments; \<open>sessionItemCount\<close> is
  \<open>sessionOptions.itemCount\<close>, which may be absent, and \<open>|| 20\<close> replaces an absent or
  zero count by \<open>20\<close>. No step of it throws: the result is always a session.
\<close>

definition initializeStudySession ::
  "int \<Rightarrow> (string \<Rightarrow> nat option \<Rightarrow> 'm) \<Rightarrow> string \<Rightarrow> user_state \<Rightarrow> user_data \<Rightarrow> candidate list
     \<Rightarrow> int option \<Rightarrow> error + 'm study_session" where
  "initializeStudySession now getContentMetadata userId us userData candidateItems sessionItemCount =
     (let selectedItems =
            selectStudyItems now userData candidateItems
              (case sessionItemCount of None \<Rightarrow> 20 | Some n \<Rightarrow> if n = 0 then 20 else n);
          enhancedItems =
            map (\<lambda>item. scored_item.extend item
                   \<lparr>metadata = getContentMetadata (contentType item) (contentId item)\<rparr>)
              selectedItems;
          session = createStudySessionRecord now userId enhancedItems
      in Inr \<lparr>sessionId = recordId session, items = enhancedItems, userState = us,
               recommendations = generateSessionRecommendations us enhancedItems\<rparr>)"

subsection \<open>Retention predictor\<close>

text \<open>
  The item data handed to the predictor. \<open>itemEaseFactor\<close> is its \<open>easeFactor\<close>;
  \<open>currentInterval\<close> may be absent.
\<close>

record item_features =
  timeSinceLastReview :: real
  itemEaseFactor :: real
  userHistoricalAccuracy :: real
  contentDifficulty :: real
  dailyLoadFactor :: real
  currentInterval :: "real option"

text \<open>\<open>modelWeights\<close>.\<close>

definition weight_timeSinceLastReview :: real where "weight_timeSinceLastReview = - 0.05"
definition weight_easeFactor :: real where "weight_easeFactor = 0.3"
definition weight_userHistoricalAccuracy :: real where "weight_userHistoricalAccuracy = 0.4"
definition weight_contentDifficulty :: real where "weight_contentDifficulty = - 0.2"
definition weight_dailyLoadFactor :: real where "weight_dailyLoadFactor = - 0.1"

definition predictRecallProbability :: "item_features \<Rightarrow> real" where
  "predictRecallProbability itemData =
     (let logit = 0;
          logit = logit + weight_timeSinceLastReview * timeSinceLastReview itemData;
          logit = logit + weight_easeFactor * itemEaseFactor itemData;
          logit = logit + weight_userHistoricalAccuracy * userHistoricalAccuracy itemData;
          logit = logit + weight_contentDifficulty * contentDifficulty itemData;
          logit = logit + weight_dailyLoadFactor * dailyLoadFactor itemData;
          probability = 1 / (1 + exp (- logit))
      in probability)"

text \<open>
  The binary search of \<open>recommendReviewTiming\<close>. Its variables are the state of the
  loop; \<open>withinTolerance\<close> is the test that leaves the loop early, at the interval
  \<open>d\<close> under examination.
\<close>

record search_state =
  low :: real
  high :: real
  days :: real
  iterations :: nat

definition maxIterations :: nat where "maxIterations = 20"

definition withinTolerance :: "item_features \<Rightarrow> real \<Rightarrow> real \<Rightarrow> bool" where
  "withinTolerance itemData targetRetention d =
     (\<bar>predictRecallProbability (itemData\<lparr>timeSinceLastReview := d\<rparr>) - targetRetention\<bar> < 0.01)"

function bisect :: "item_features \<Rightarrow> real \<Rightarrow> search_state \<Rightarrow> search_state" where
  "bisect itemData targetRetention st =
     (if iterations st < maxIterations then
        (let d = (low st + high st) / 2;
             recallProb = predictRecallProbability (itemData\<lparr>timeSinceLastReview := d\<rparr>)
         in if withinTolerance itemData targetRetention d then st\<lparr>days := d\<rparr>
            else if recallProb > targetRetention then
              bisect itemData targetRetention
                (st\<lparr>days := d, low := d, iterations := Suc (iterations st)\<rparr>)
            else
              bisect itemData targetRetention
                (st\<lparr>days := d, high := d, iterations := Suc (iterations st)\<rparr>))
      else st)"
  by pat_completeness auto
termination
  by (relation "measure (\<lambda>(itemData, targetRetention, st). maxIterations - iterations st)") auto

declare bisect.simps [simp del]

text \<open>
  The state in which the loop ends, from \<open>low = 0.1\<close>, \<open>high = 365\<close>,
  \<open>iterations = 0\<close> and \<open>days = itemData.currentInterval || 1\<close>; and
  \<open>recommendReviewTiming\<close>, which returns its \<open>days\<close>, rounded. When
  \<open>targetRetention\<close> is omitted it is \<open>0.8\<close>.
\<close>

definition default_targetRetention :: real where "default_targetRetention = 0.8"

definition reviewTimingSearch :: "item_features \<Rightarrow> real \<Rightarrow> search_state" where
  "reviewTimingSearch itemData targetRetention =
     bisect itemData targetRetention
       \<lparr>low = 0.1, high = 365, days = or_default (currentInterval itemData) 1, iterations = 0\<rparr>"

definition recommendReviewTiming :: "item_features \<Rightarrow> real \<Rightarrow> int" where
  "recommendReviewTiming itemData targetRetention =
     round (days (reviewTimingSearch itemData targetRetention))"

text \<open>
  The bracket \<open>(low, high)\<close> at the head of the loop once \<open>n\<close> iterations have
  narrowed it, and the midpoint of a bracket.
\<close>

fun bracket :: "item_features \<Rightarrow> real \<Rightarrow> nat \<Rightarrow> real \<times> real" where
  "bracket itemData targetRetention 0 = (0.1, 365)"
| "bracket itemData targetRetention (Suc n) =
     (let (lo, hi) = bracket itemData targetRetention n;
          d = (lo + hi) / 2
      in if predictRecallProbability (itemData\<lparr>timeSinceLastReview := d\<rparr>) > targetRetention
         then (d, hi) else (lo, d))"

definition mid :: "real \<times> real \<Rightarrow> real" where
  "mid b = (fst b + snd b) / 2"

section \<open>Properties of the review scheduler\<close>

lemma updateEaseFactor_floor: "1.3 \<le> updateEaseFactor quality ef"
  by (simp add: updateEaseFactor_def Let_def)

text \<open>
  C3 (failure reset). For every quality in \<open>[0, 5]\<close> below \<open>3\<close> and every prior
  repetitions, interval and ease factor, both schedulers return \<open>repetitions = 0\<close> and
  \<open>interval = 1\<close>; the engine's scheduler returns a result there, not an error.
\<close>

theorem failure_reset:
  assumes "0 \<le> quality" and "quality \<le> 5" and "quality < 3"
  shows "repetitions (calculateSM2 quality reps ef ivl) = 0
       \<and> interval (calculateSM2 quality reps ef ivl) = 1
       \<and> (\<exists>r. calculateNextReview now quality reps ivl ef = Inr r
              \<and> repetitions r = 0 \<and> interval r = 1)"
  using assms by (simp add: calculateSM2_def calculateNextReview_def Let_def)

theorem failure_reset_witness:
  "repetitions (calculateSM2 2 7 2.5 40) = 0
 \<and> interval (calculateSM2 2 7 2.5 40) = 1
 \<and> (\<exists>r. calculateNextReview 0 2 7 40 2.5 = Inr r \<and> repetitions r = 0 \<and> interval r = 1)"
  using failure_reset [where quality = 2 and reps = 7 and ef = "2.5" and ivl = 40 and now = 0]
  by simp


text \<open>
  C2 (quality validation). The engine's \<open>calculateNextReview\<close> fails with
  \<open>InvalidInput\<close> exactly when the quality is outside \<open>[0, 5]\<close>, so it rejects a
  quality of \<open>6\<close>; \<open>calculateSM2\<close> of \<open>srs.ts\<close> has no check and schedules the same
  quality as a success, raising the ease factor by \<open>0.16\<close>.
\<close>

theorem quality_validation_missing:
  "(calculateNextReview now quality reps ivl ef = Inl InvalidInput) = (quality < 0 \<or> 5 < quality)
 \<and> calculateNextReview 0 6 0 0 2.5 = Inl InvalidInput
 \<and> calculateSM2 6 0 2.5 0 = \<lparr>interval = 1, repetitions = 1, easeFactor = 2.66\<rparr>"
  by (simp add: calculateSM2_def calculateNextReview_def updateEaseFactor_def Let_def
      split: prod.splits)

text \<open>
  C1 (equivalence of the two schedulers), as stated, fails: at quality \<open>5\<close>, two prior
  repetitions, interval \<open>6\<close> and ease factor \<open>2.5\<close>, \<open>calculateSM2\<close> multiplies by
  the new ease factor \<open>2.6\<close> and returns interval \<open>16\<close>, while
  \<open>calculateNextReview\<close> multiplies by the old one and returns \<open>15\<close>.
\<close>

theorem sm2_implementations_differ:
  "interval (calculateSM2 5 2 2.5 6) = 16
 \<and> calculateNextReview 0 5 2 6 2.5
     = Inr \<lparr>interval = 15, repetitions = 3, easeFactor = 2.6, nextReviewDate = 1296000000\<rparr>"
  by (simp add: calculateSM2_def calculateNextReview_def updateEaseFactor_def
      calculateNextReviewDate_def Let_def round_def)

text \<open>
  C1, amended. For every quality in \<open>[0, 5]\<close> the two schedulers return the same
  repetitions and the same ease factor, and the same interval when the quality is below
  \<open>3\<close> or the prior repetitions are \<open>0\<close> or \<open>1\<close>. Otherwise (in particular for
  repetitions \<open>\<ge> 2\<close> and quality \<open>\<ge> 3\<close>) \<open>calculateNextReview\<close> returns
  \<open>round (interval * easeFactor)\<close> with the ease factor it was given, and
  \<open>calculateSM2\<close> returns \<open>round (interval * newEaseFactor)\<close> with the updated one.
\<close>

theorem sm2_agreement:
  assumes "0 \<le> quality" and "quality \<le> 5"
  shows "\<exists>r. calculateNextReview now quality reps ivl ef = Inr r
           \<and> repetitions r = repetitions (calculateSM2 quality reps ef ivl)
           \<and> easeFactor r = easeFactor (calculateSM2 quality reps ef ivl)
           \<and> (if quality < 3 \<or> reps = 0 \<or> reps = 1
               then interval r = interval (calculateSM2 quality reps ef ivl)
               else interval r = of_int (round (ivl * ef))
                  \<and> interval (calculateSM2 quality reps ef ivl)
                      = of_int (round (ivl * updateEaseFactor quality ef)))"
  using assms by (simp add: calculateSM2_def calculateNextReview_def Let_def)

theorem sm2_agreement_witness:
  "\<exists>r. calculateNextReview 0 5 3 10 2.5 = Inr r
      \<and> repetitions r = repetitions (calculateSM2 5 3 2.5 10)
      \<and> easeFactor r = easeFactor (calculateSM2 5 3 2.5 10)
      \<and> interval r = 25 \<and> interval (calculateSM2 5 3 2.5 10) = 26"
  using sm2_agreement [where quality = 5 and reps = 3 and ivl = 10 and ef = "2.5" and now = 0]
  by (simp add: updateEaseFactor_def Let_def round_def)

text \<open>The ease factor returned by either scheduler is the shared update.\<close>

lemma calculateSM2_easeFactor:
  "easeFactor (calculateSM2 quality reps ef ivl) = updateEaseFactor quality ef"
  by (simp add: calculateSM2_def Let_def)

lemma calculateNextReview_valid:
  assumes "0 \<le> quality" and "quality \<le> 5"
  shows "\<exists>r. calculateNextReview now quality reps ivl ef = Inr r
           \<and> easeFactor r = updateEaseFactor quality ef"
  using assms by (simp add: calculateNextReview_def Let_def split: prod.splits)

lemma reviewCards_floor:
  "1.3 \<le> easeFactor c \<Longrightarrow> 1.3 \<le> easeFactor (reviewCards c qs)"
proof (induction qs arbitrary: c)
  case Nil
  then show ?case by simp
next
  case (Cons q qs)
  have "1.3 \<le> easeFactor (calculateSM2 q (repetitions c) (easeFactor c) (interval c))"
    using updateEaseFactor_floor [of q "easeFactor c"] by (simp add: calculateSM2_easeFactor)
  then show ?case using Cons.IH by simp
qed

lemma reviewItems_floor:
  assumes "\<forall>q\<in>set qs. 0 \<le> q \<and> q \<le> 5" and "1.3 \<le> easeFactor item"
  shows "\<exists>r. reviewItems now item qs = Inr r \<and> 1.3 \<le> easeFactor r"
  using assms
proof (induction qs arbitrary: item)
  case Nil
  then show ?case by simp
next
  case (Cons q qs)
  from Cons.prems have q: "0 \<le> q" "q \<le> 5" by simp_all
  obtain r
    where r: "calculateNextReview now q (repetitions item) (interval item) (easeFactor item) = Inr r"
      and e: "easeFactor r = updateEaseFactor q (easeFactor item)"
    using calculateNextReview_valid [OF q] by blast
  have "1.3 \<le> easeFactor r" using e updateEaseFactor_floor by simp
  moreover have "\<forall>q\<in>set qs. 0 \<le> q \<and> q \<le> 5" using Cons.prems by simp
  ultimately obtain r' where "reviewItems now r qs = Inr r' \<and> 1.3 \<le> easeFactor r'"
    using Cons.IH by blast
  then show ?case using r by simp
qed

text \<open>
  C4 (ease-factor floor). For every quality in \<open>[0, 5]\<close> and input ease factor
  \<open>\<ge> 1.3\<close>, the ease factor returned by either scheduler is \<open>\<ge> 1.3\<close>; and after
  any sequence of reviews with qualities in \<open>[0, 5]\<close>, starting from an ease factor
  \<open>\<ge> 1.3\<close>, the stored ease factor is still \<open>\<ge> 1.3\<close> (the engine's run returns a
  result, it does not fail).
\<close>

theorem ease_factor_floor:
  assumes "0 \<le> quality" and "quality \<le> 5" and "1.3 \<le> ef"
    and "\<forall>q\<in>set qs. 0 \<le> q \<and> q \<le> 5"
  shows "1.3 \<le> easeFactor (calculateSM2 quality reps ef ivl)
       \<and> (\<exists>r. calculateNextReview now quality reps ivl ef = Inr r \<and> 1.3 \<le> easeFactor r)
       \<and> 1.3 \<le> easeFactor (reviewCards \<lparr>interval = ivl, repetitions = reps, easeFactor = ef\<rparr> qs)
       \<and> (\<exists>r. reviewItems now
                 \<lparr>interval = ivl, repetitions = reps, easeFactor = ef, nextReviewDate = d\<rparr> qs = Inr r
              \<and> 1.3 \<le> easeFactor r)"
proof -
  have "1.3 \<le> easeFactor (calculateSM2 quality reps ef ivl)"
    using updateEaseFactor_floor [of quality ef] by (simp add: calculateSM2_easeFactor)
  moreover have "\<exists>r. calculateNextReview now quality reps ivl ef = Inr r \<and> 1.3 \<le> easeFactor r"
    using calculateNextReview_valid [OF assms(1,2), of now reps ivl ef] updateEaseFactor_floor
    by auto
  moreover have "1.3 \<le> easeFactor (reviewCards \<lparr>interval = ivl, repetitions = reps, easeFactor = ef\<rparr> qs)"
    using assms(3) by (intro reviewCards_floor) simp
  moreover have "\<exists>r. reviewItems now
                 \<lparr>interval = ivl, repetitions = reps, easeFactor = ef, nextReviewDate = d\<rparr> qs = Inr r
              \<and> 1.3 \<le> easeFactor r"
    using assms(3,4) by (intro reviewItems_floor) simp_all
  ultimately show ?thesis by blast
qed

theorem ease_factor_floor_witness:
  "1.3 \<le> easeFactor (calculateSM2 0 3 1.3 10)
 \<and> (\<exists>r. calculateNextReview 0 0 3 10 1.3 = Inr r \<and> 1.3 \<le> easeFactor r)
 \<and> 1.3 \<le> easeFactor (reviewCards \<lparr>interval = 10, repetitions = 3, easeFactor = 1.3\<rparr> [0, 3, 1])
 \<and> (\<exists>r. reviewItems 0
           \<lparr>interval = 10, repetitions = 3, easeFactor = 1.3, nextReviewDate = 0\<rparr> [0, 3, 1] = Inr r
        \<and> 1.3 \<le> easeFactor r)"
  using ease_factor_floor [where quality = 0 and ef = "1.3" and qs = "[0, 3, 1]" and reps = 3
      and ivl = 10 and now = 0 and d = 0]
  by simp

text \<open>The ease-factor update does not decrease as the quality grows up to \<open>5\<close>.\<close>

lemma raw_ease_mono:
  fixes q1 q2 :: real
  assumes "q1 \<le> q2" and "q2 \<le> 5"
  shows "(5 - q2) * (0.08 + (5 - q2) * 0.02) \<le> (5 - q1) * (0.08 + (5 - q1) * 0.02)"
proof -
  have d: "0 \<le> 5 - q2" "5 - q2 \<le> 5 - q1" using assms by simp_all
  then have "0.08 + (5 - q2) * 0.02 \<le> 0.08 + (5 - q1) * 0.02" by simp
  moreover have "0 \<le> 0.08 + (5 - q2) * 0.02" using d by simp
  ultimately show ?thesis using d by (intro mult_mono) simp_all
qed

lemma updateEaseFactor_mono:
  assumes "q1 \<le> q2" and "q2 \<le> 5"
  shows "updateEaseFactor q1 ef \<le> updateEaseFactor q2 ef"
  using raw_ease_mono [OF assms] by (simp add: updateEaseFactor_def Let_def)

text \<open>
  C5 (SM-2 monotonicity). For fixed repetitions \<open>\<ge> 2\<close>, interval \<open>\<ge> 0\<close> and ease
  factor \<open>\<ge> 1.3\<close>, the interval returned by \<open>calculateSM2\<close> does not decrease when
  the quality increases within \<open>[3, 5]\<close>, in particular over \<open>3, 4, 5\<close>; nor does the
  interval returned by \<open>calculateNextReview\<close>, which does not depend on the quality
  there.
\<close>

theorem sm2_monotone:
  assumes "2 \<le> reps" and "0 \<le> ivl" and "1.3 \<le> ef"
    and "3 \<le> q1" and "q1 \<le> q2" and "q2 \<le> 5"
  shows "interval (calculateSM2 q1 reps ef ivl) \<le> interval (calculateSM2 q2 reps ef ivl)
       \<and> (\<exists>r1 r2. calculateNextReview now q1 reps ivl ef = Inr r1
                 \<and> calculateNextReview now q2 reps ivl ef = Inr r2
                 \<and> interval r1 \<le> interval r2)"
proof -
  have "ivl * updateEaseFactor q1 ef \<le> ivl * updateEaseFactor q2 ef"
    using assms(2) updateEaseFactor_mono [OF assms(5,6)] by (intro mult_left_mono)
  then have "round (ivl * updateEaseFactor q1 ef) \<le> round (ivl * updateEaseFactor q2 ef)"
    by (rule round_mono)
  then have "interval (calculateSM2 q1 reps ef ivl) \<le> interval (calculateSM2 q2 reps ef ivl)"
    using assms by (simp add: calculateSM2_def Let_def)
  moreover have "\<exists>r1 r2. calculateNextReview now q1 reps ivl ef = Inr r1
                 \<and> calculateNextReview now q2 reps ivl ef = Inr r2
                 \<and> interval r1 \<le> interval r2"
    using assms by (simp add: calculateNextReview_def Let_def)
  ultimately show ?thesis by blast
qed

theorem sm2_monotone_witness:
  "interval (calculateSM2 3 2 2.5 6) \<le> interval (calculateSM2 5 2 2.5 6)
 \<and> (\<exists>r1 r2. calculateNextReview 0 3 2 6 2.5 = Inr r1
           \<and> calculateNextReview 0 5 2 6 2.5 = Inr r2
           \<and> interval r1 \<le> interval r2)"
  using sm2_monotone [where reps = 2 and ivl = 6 and ef = "2.5" and ?q1.0 = 3 and ?q2.0 = 5
      and now = 0]
  by simp


section \<open>Properties of the difficulty adjuster\<close>

lemma calculateDifficultyIncrease_bounds:
  "0.1 \<le> calculateDifficultyIncrease item p \<and> calculateDifficultyIncrease item p \<le> 0.3"
  by (simp add: calculateDifficultyIncrease_def Let_def)

lemma calculateDifficultyDecrease_bounds:
  "0.15 \<le> calculateDifficultyDecrease item p \<and> calculateDifficultyDecrease item p \<le> 0.4"
  by (simp add: calculateDifficultyDecrease_def Let_def)

text \<open>
  C7 (difficulty cap). The increase computed by \<open>calculateDifficultyIncrease\<close> lies in
  \<open>[0.10, 0.30]\<close> and the decrease magnitude computed by
  \<open>calculateDifficultyDecrease\<close> lies in \<open>[0.15, 0.40]\<close>, for every item and
  performance sample. \<open>adjustItemDifficulty\<close> sets the increase exactly when the
  accuracy is \<open>\<ge> 0.9\<close> and the decrease exactly when it is \<open>\<le> 0.5\<close>, so the signed
  difficulty delta (the increase, or minus the decrease) is never outside
  \<open>[-0.40, +0.30]\<close>. The time-pressure adjustment is \<open>-0.1\<close>, \<open>0\<close> or \<open>0.1\<close>.
\<close>

theorem difficulty_cap:
  "calculateDifficultyIncrease item p \<le> 0.3
 \<and> 0 \<le> calculateDifficultyIncrease item p
 \<and> - 0.4 \<le> - calculateDifficultyDecrease item p
 \<and> - calculateDifficultyDecrease item p \<le> 0
 \<and> calculateTimePressureAdjustment p \<in> {- 0.1, 0, 0.1}
 \<and> difficultyIncrease (adjustItemDifficulty now item p)
     = (if accuracy p \<ge> 0.9 then Some (calculateDifficultyIncrease item p) else None)
 \<and> difficultyDecrease (adjustItemDifficulty now item p)
     = (if accuracy p \<le> 0.5 then Some (calculateDifficultyDecrease item p) else None)"
proof -
  have "difficultyIncrease (adjustItemDifficulty now item p)
     = (if accuracy p \<ge> 0.9 then Some (calculateDifficultyIncrease item p) else None)"
    by (simp add: adjustItemDifficulty_def item_data.extend_def threshold_easy_def)
  moreover have "difficultyDecrease (adjustItemDifficulty now item p)
     = (if accuracy p \<le> 0.5 then Some (calculateDifficultyDecrease item p) else None)"
    by (simp add: adjustItemDifficulty_def item_data.extend_def threshold_easy_def
        threshold_hard_def)
  moreover have "calculateTimePressureAdjustment p \<in> {- 0.1, 0, 0.1}"
    by (simp add: calculateTimePressureAdjustment_def Let_def split: option.splits)
  ultimately show ?thesis
    using calculateDifficultyIncrease_bounds [of item p]
      calculateDifficultyDecrease_bounds [of item p]
    by simp
qed

lemma foldl_accuracy: "foldl (\<lambda>sum p. sum + accuracy p) a ps = a + sum_list (map accuracy ps)"
  by (induction ps arbitrary: a) simp_all

text \<open>
  C10 (session difficulty). \<open>adjustSessionDifficulty\<close> returns \<open>1.0\<close> for the empty
  list, and otherwise \<open>1.1\<close> when the mean accuracy exceeds \<open>0.9\<close>, \<open>0.9\<close> when it
  is below \<open>0.6\<close> and \<open>1.0\<close> in between; the result is one of \<open>0.9\<close>, \<open>1.0\<close>,
  \<open>1.1\<close>, and the final clamp to \<open>[0.7, 1.3]\<close> returns the adjustment unchanged.
\<close>

theorem session_difficulty_values:
  "adjustSessionDifficulty ps
     = (if ps = [] then 1.0
        else if sum_list (map accuracy ps) / real (length ps) > 0.9 then 1.1
        else if sum_list (map accuracy ps) / real (length ps) < 0.6 then 0.9
        else 1.0)
 \<and> adjustSessionDifficulty ps \<in> {0.9, 1.0, 1.1}
 \<and> max 0.7 (min 1.3 (sessionAdjustment ps)) = sessionAdjustment ps"
  by (simp add: adjustSessionDifficulty_def sessionAdjustment_def averageAccuracy_def
      foldl_accuracy Let_def)


section \<open>Properties of the item selector\<close>














section \<open>Properties of the session coordinator\<close>

lemma selectStudyItems_empty: "selectStudyItems now u [] n = []"
  by (simp add: selectStudyItems_def slice0_def array_sort_def Let_def)

text \<open>
  C8 (no eligible items), as stated, fails: with an empty candidate list
  \<open>initializeStudySession\<close> returns a session with no items; it does not fail with
  \<open>NoEligibleItems\<close>.
\<close>

theorem empty_pool_returns_session:
  "initializeStudySession 0 (\<lambda>t i. ()) ''user''
     \<lparr>currentStreak = 5, totalItemsStudied = 250, accuracyRate = 82, jlptLevel = 3\<rparr>
     \<lparr>userJlptLevel = 3, characterWeakness = 25, wordWeakness = 15, grammarWeakness = 30,
      preferNovelty = True, recentItems = [], itemPerformance = (\<lambda>i. None)\<rparr>
     [] None
   = Inr \<lparr>sessionId = ''session_0'', items = [],
          userState = \<lparr>currentStreak = 5, totalItemsStudied = 250, accuracyRate = 82, jlptLevel = 3\<rparr>,
          recommendations = \<lparr>itemCount = 0, estimatedTime = 0, focus = ''mixed'', tips = []\<rparr>\<rparr>"
  by (simp add: initializeStudySession_def selectStudyItems_empty createStudySessionRecord_def
      generateSessionRecommendations_def determineSessionFocus_def typeCounts_def
      generateSessionTips_def show_int_def show_nat.simps digit_def Let_def)

text \<open>
  C8, amended. When the selector's candidate list is empty, \<open>initializeStudySession\<close>
  returns a session, not an error: its item list is empty and its recommendations are
  an item count of \<open>0\<close>, an estimated time of \<open>0\<close> and the focus \<open>mixed\<close>.
\<close>

theorem empty_pool_session:
  "initializeStudySession now getContentMetadata userId us userData [] sessionItemCount
   = Inr \<lparr>sessionId = ''session_'' @ show_int now, items = [], userState = us,
          recommendations =
            \<lparr>itemCount = 0, estimatedTime = 0, focus = ''mixed'', tips = generateSessionTips us\<rparr>\<rparr>"
  by (simp add: initializeStudySession_def selectStudyItems_empty createStudySessionRecord_def
      generateSessionRecommendations_def determineSessionFocus_def typeCounts_def Let_def)


section \<open>Properties of the retention predictor\<close>

lemma bracket_bounds:
  "0.1 \<le> fst (bracket f t n) \<and> fst (bracket f t n) \<le> snd (bracket f t n)
     \<and> snd (bracket f t n) \<le> 365"
  by (induction n) (auto simp: Let_def split: prod.splits)

lemma mid_bracket_bounds: "0.1 \<le> mid (bracket f t n) \<and> mid (bracket f t n) \<le> 365"
  using bracket_bounds [of f t n] by (simp add: mid_def)

lemma bisect_done: "maxIterations \<le> iterations st \<Longrightarrow> bisect f t st = st"
  by (subst bisect.simps) simp

lemma bisect_stop:
  assumes "iterations st < maxIterations" and "withinTolerance f t ((low st + high st) / 2)"
  shows "bisect f t st = st\<lparr>days := (low st + high st) / 2\<rparr>"
  using assms by (subst bisect.simps) (simp add: Let_def)

lemma bisect_narrow:
  assumes "iterations st < maxIterations" and "\<not> withinTolerance f t ((low st + high st) / 2)"
  shows "bisect f t st =
     bisect f t
       (if predictRecallProbability (f\<lparr>timeSinceLastReview := (low st + high st) / 2\<rparr>) > t
        then st\<lparr>days := (low st + high st) / 2, low := (low st + high st) / 2,
                iterations := Suc (iterations st)\<rparr>
        else st\<lparr>days := (low st + high st) / 2, high := (low st + high st) / 2,
                iterations := Suc (iterations st)\<rparr>)"
  using assms by (subst bisect.simps) (simp add: Let_def)

lemma bisect_characterised:
  assumes "m = 19 - iterations st" and "iterations st < 20"
    and "(low st, high st) = bracket f t (iterations st)"
    and "\<forall>j<iterations st. \<not> withinTolerance f t (mid (bracket f t j))"
  shows "\<exists>k. iterations st \<le> k \<and> k < 20
           \<and> days (bisect f t st) = mid (bracket f t k)
           \<and> (\<forall>j<k. \<not> withinTolerance f t (mid (bracket f t j)))
           \<and> (if withinTolerance f t (mid (bracket f t k)) then iterations (bisect f t st) = k
               else k = 19 \<and> iterations (bisect f t st) = 20)"
  using assms
proof (induction m arbitrary: st)
  case 0
  let ?n = "iterations st"
  let ?d = "(low st + high st) / 2"
  have n: "?n = 19" using "0.prems"(1,2) by simp
  have lt: "?n < maxIterations" using n by (simp add: maxIterations_def)
  have "low st = fst (bracket f t ?n)" "high st = snd (bracket f t ?n)"
    using "0.prems"(3) by (metis fst_conv, metis snd_conv)
  then have d: "?d = mid (bracket f t ?n)" by (simp add: mid_def)
  show ?case
  proof (cases "withinTolerance f t ?d")
    case True
    have "bisect f t st = st\<lparr>days := ?d\<rparr>" by (rule bisect_stop [OF lt True])
    then show ?thesis using True d "0.prems"(2,4) by (intro exI [of _ ?n]) simp
  next
    case False
    let ?st' = "if predictRecallProbability (f\<lparr>timeSinceLastReview := ?d\<rparr>) > t
        then st\<lparr>days := ?d, low := ?d, iterations := Suc ?n\<rparr>
        else st\<lparr>days := ?d, high := ?d, iterations := Suc ?n\<rparr>"
    have "maxIterations \<le> iterations ?st'" using n by (simp add: maxIterations_def)
    then have "bisect f t st = ?st'"
      using bisect_narrow [OF lt False] bisect_done by simp
    then have "days (bisect f t st) = ?d \<and> iterations (bisect f t st) = 20"
      using n by simp
    then show ?thesis using False d n "0.prems"(2,4) by (intro exI [of _ ?n]) simp
  qed
next
  case (Suc m)
  let ?n = "iterations st"
  let ?d = "(low st + high st) / 2"
  have n: "?n < 19" using Suc.prems(1) by simp
  have lt: "?n < maxIterations" using n by (simp add: maxIterations_def)
  have lh: "low st = fst (bracket f t ?n)" "high st = snd (bracket f t ?n)"
    using Suc.prems(3) by (metis fst_conv, metis snd_conv)
  then have d: "?d = mid (bracket f t ?n)" by (simp add: mid_def)
  show ?case
  proof (cases "withinTolerance f t ?d")
    case True
    have "bisect f t st = st\<lparr>days := ?d\<rparr>" by (rule bisect_stop [OF lt True])
    then show ?thesis using True d Suc.prems(2,4) by (intro exI [of _ ?n]) simp
  next
    case False
    define st' where "st' =
      (if predictRecallProbability (f\<lparr>timeSinceLastReview := ?d\<rparr>) > t
       then st\<lparr>days := ?d, low := ?d, iterations := Suc ?n\<rparr>
       else st\<lparr>days := ?d, high := ?d, iterations := Suc ?n\<rparr>)"
    have step: "bisect f t st = bisect f t st'"
      unfolding st'_def by (rule bisect_narrow [OF lt False])
    have it: "iterations st' = Suc ?n" by (simp add: st'_def)
    have br: "(low st', high st') = bracket f t (iterations st')"
      unfolding it using Suc.prems(3) [symmetric] by (simp add: st'_def Let_def)
    have nw: "\<forall>j<iterations st'. \<not> withinTolerance f t (mid (bracket f t j))"
      unfolding it using Suc.prems(4) False d by (auto simp: less_Suc_eq)
    have "m = 19 - iterations st'" "iterations st' < 20" using Suc.prems(1) n it by simp_all
    from Suc.IH [OF this br nw] obtain k where
      "iterations st' \<le> k \<and> k < 20
           \<and> days (bisect f t st') = mid (bracket f t k)
           \<and> (\<forall>j<k. \<not> withinTolerance f t (mid (bracket f t j)))
           \<and> (if withinTolerance f t (mid (bracket f t k)) then iterations (bisect f t st') = k
               else k = 19 \<and> iterations (bisect f t st') = 20)" by blast
    then show ?thesis unfolding step it by (intro exI [of _ k]) simp
  qed
qed


text \<open>
  C6 (bounded binary search). \<open>recommendReviewTiming\<close> is total: the loop ends with
  \<open>iterations \<le> 20\<close>. It bisects the brackets \<open>bracket 0 = [0.1, 365]\<close>,
  \<open>bracket 1\<close>, ... and ends at the first \<open>k < 20\<close> whose midpoint is predicted
  within \<open>0.01\<close> of the target retention (then \<open>iterations = k\<close>); when there is
  none it ends after the twentieth bisection (\<open>k = 19\<close>, \<open>iterations = 20\<close>). In both
  cases the result is the midpoint of the last bracket bisected, rounded to days, and it
  lies between \<open>0\<close> and \<open>365\<close>.
\<close>

theorem review_timing_terminates:
  "iterations (reviewTimingSearch f t) \<le> 20
 \<and> (\<exists>k<20. days (reviewTimingSearch f t) = mid (bracket f t k)
        \<and> (\<forall>j<k. \<not> withinTolerance f t (mid (bracket f t j)))
        \<and> (if withinTolerance f t (mid (bracket f t k))
            then iterations (reviewTimingSearch f t) = k
            else k = 19 \<and> iterations (reviewTimingSearch f t) = 20))
 \<and> recommendReviewTiming f t = round (days (reviewTimingSearch f t))
 \<and> 0 \<le> recommendReviewTiming f t \<and> recommendReviewTiming f t \<le> 365"
proof -
  let ?st0 = "\<lparr>low = 0.1, high = 365, days = or_default (currentInterval f) 1, iterations = 0\<rparr>"
  have "\<exists>k. iterations ?st0 \<le> k \<and> k < 20
           \<and> days (bisect f t ?st0) = mid (bracket f t k)
           \<and> (\<forall>j<k. \<not> withinTolerance f t (mid (bracket f t j)))
           \<and> (if withinTolerance f t (mid (bracket f t k)) then iterations (bisect f t ?st0) = k
               else k = 19 \<and> iterations (bisect f t ?st0) = 20)"
    by (rule bisect_characterised [where m = 19]) simp_all
  then obtain k where k: "k < 20" "days (reviewTimingSearch f t) = mid (bracket f t k)"
      "\<forall>j<k. \<not> withinTolerance f t (mid (bracket f t j))"
      "if withinTolerance f t (mid (bracket f t k)) then iterations (reviewTimingSearch f t) = k
       else k = 19 \<and> iterations (reviewTimingSearch f t) = 20"
    unfolding reviewTimingSearch_def by blast
  have it: "iterations (reviewTimingSearch f t) \<le> 20"
    using k(1,4) by (auto split: if_splits)
  have b: "(0.1 :: real) \<le> mid (bracket f t k)" "mid (bracket f t k) \<le> (365 :: real)"
    using mid_bracket_bounds [of f t k] by simp_all
  have "round (0.1 :: real) \<le> round (mid (bracket f t k))"
    "round (mid (bracket f t k)) \<le> round (365 :: real)"
    by (rule round_mono [OF b(1)], rule round_mono [OF b(2)])
  then have "0 \<le> recommendReviewTiming f t \<and> recommendReviewTiming f t \<le> 365"
    unfolding recommendReviewTiming_def k(2) by (simp add: round_def)
  then show ?thesis using it k by (auto simp: recommendReviewTiming_def)
qed

text \<open>The predicted probability lies strictly between \<open>0\<close> and \<open>1\<close>.\<close>

lemma predictRecallProbability_range:
  "0 < predictRecallProbability f \<and> predictRecallProbability f < 1"
proof -
  have "0 < exp x" for x :: real by simp
  then show ?thesis
    by (simp add: predictRecallProbability_def Let_def add_pos_pos)
qed


text \<open>
  Two runs: an item whose first midpoint \<open>182.55\<close> is predicted at exactly the target
  \<open>0.5\<close> ends at once with \<open>183\<close> days; an item with ease factor \<open>100\<close> is
  recalled with probability above \<open>0.9\<close> at every interval up to a year, so the search
  for the target \<open>0.8\<close> never converges, runs its \<open>20\<close> iterations and returns
  \<open>365\<close> days.
\<close>

lemma easy_item_recall:
  assumes "d \<le> 365"
  shows "0.9 < predictRecallProbability
           \<lparr>timeSinceLastReview = d, itemEaseFactor = 100, userHistoricalAccuracy = 0,
            contentDifficulty = 0, dailyLoadFactor = 0, currentInterval = None\<rparr>"
proof -
  define l where "l = 30 - 0.05 * d"
  have "11 \<le> l" using assms by (simp add: l_def)
  moreover have "1 + l \<le> exp l" by (rule exp_ge_add_one_self)
  ultimately have e: "9 < exp l" by linarith
  have "exp (- l) * exp l = 1" by (simp flip: exp_add)
  have "exp (- l) < 1 / 9"
    using e by (simp add: exp_minus field_simps)
  then have "0.9 * (1 + exp (- l)) < 1" by simp
  moreover have "0 < 1 + exp (- l)" by (simp add: add_pos_pos)
  ultimately have "0.9 < 1 / (1 + exp (- l))" by (simp add: field_simps)
  moreover have "predictRecallProbability
           \<lparr>timeSinceLastReview = d, itemEaseFactor = 100, userHistoricalAccuracy = 0,
            contentDifficulty = 0, dailyLoadFactor = 0, currentInterval = None\<rparr> = 1 / (1 + exp (- l))"
    by (simp add: predictRecallProbability_def Let_def l_def weight_timeSinceLastReview_def
        weight_easeFactor_def)
  ultimately show ?thesis by simp
qed

lemma easy_item_bracket:
  "bracket \<lparr>timeSinceLastReview = 0, itemEaseFactor = 100, userHistoricalAccuracy = 0,
            contentDifficulty = 0, dailyLoadFactor = 0, currentInterval = None\<rparr> 0.8 n
   = (365 - 364.9 / 2 ^ n, 365)"
proof (induction n)
  case 0
  show ?case by simp
next
  case (Suc n)
  let ?d = "(365 - 364.9 / 2 ^ n + 365) / 2 :: real"
  have "?d \<le> 365" by simp
  from easy_item_recall [OF this] show ?case
    using Suc.IH by (simp add: Let_def field_simps)
qed

theorem review_timing_terminates_witness:
  "recommendReviewTiming
     \<lparr>timeSinceLastReview = 0, itemEaseFactor = 30.425, userHistoricalAccuracy = 0,
      contentDifficulty = 0, dailyLoadFactor = 0, currentInterval = None\<rparr> 0.5 = 183
 \<and> iterations (reviewTimingSearch
     \<lparr>timeSinceLastReview = 0, itemEaseFactor = 30.425, userHistoricalAccuracy = 0,
      contentDifficulty = 0, dailyLoadFactor = 0, currentInterval = None\<rparr> 0.5) = 0
 \<and> recommendReviewTiming
     \<lparr>timeSinceLastReview = 0, itemEaseFactor = 100, userHistoricalAccuracy = 0,
      contentDifficulty = 0, dailyLoadFactor = 0, currentInterval = None\<rparr> 0.8 = 365
 \<and> iterations (reviewTimingSearch
     \<lparr>timeSinceLastReview = 0, itemEaseFactor = 100, userHistoricalAccuracy = 0,
      contentDifficulty = 0, dailyLoadFactor = 0, currentInterval = None\<rparr> 0.8) = 20"
proof -
  let ?f = "\<lparr>timeSinceLastReview = 0, itemEaseFactor = 30.425, userHistoricalAccuracy = 0,
      contentDifficulty = 0, dailyLoadFactor = 0, currentInterval = None\<rparr>"
  let ?g = "\<lparr>timeSinceLastReview = 0, itemEaseFactor = 100, userHistoricalAccuracy = 0,
      contentDifficulty = 0, dailyLoadFactor = 0, currentInterval = None\<rparr>"
  have w0: "withinTolerance ?f 0.5 (mid (bracket ?f 0.5 0))"
    by (simp add: withinTolerance_def mid_def predictRecallProbability_def Let_def
        weight_timeSinceLastReview_def weight_easeFactor_def)
  obtain k where k: "days (reviewTimingSearch ?f 0.5) = mid (bracket ?f 0.5 k)"
      "\<forall>j<k. \<not> withinTolerance ?f 0.5 (mid (bracket ?f 0.5 j))"
      "if withinTolerance ?f 0.5 (mid (bracket ?f 0.5 k))
       then iterations (reviewTimingSearch ?f 0.5) = k
       else k = 19 \<and> iterations (reviewTimingSearch ?f 0.5) = 20"
    using review_timing_terminates [of ?f "0.5"] by blast
  have "k = 0" using k(2) w0 by (cases k) auto
  then have f: "days (reviewTimingSearch ?f 0.5) = 182.55" "iterations (reviewTimingSearch ?f 0.5) = 0"
    using k(1,3) w0 by (simp_all add: mid_def)
  have nw: "\<not> withinTolerance ?g 0.8 (mid (bracket ?g 0.8 n))" for n
  proof -
    have "mid (bracket ?g 0.8 n) \<le> 365" using mid_bracket_bounds [of ?g "0.8" n] by blast
    from easy_item_recall [OF this] show ?thesis by (simp add: withinTolerance_def)
  qed
  obtain m where m: "days (reviewTimingSearch ?g 0.8) = mid (bracket ?g 0.8 m)"
      "if withinTolerance ?g 0.8 (mid (bracket ?g 0.8 m))
       then iterations (reviewTimingSearch ?g 0.8) = m
       else m = 19 \<and> iterations (reviewTimingSearch ?g 0.8) = 20"
    using review_timing_terminates [of ?g "0.8"] by blast
  have g: "days (reviewTimingSearch ?g 0.8) = 365 - 364.9 / 2 ^ 20" "iterations (reviewTimingSearch ?g 0.8) = 20"
    using m nw unfolding easy_item_bracket by (simp_all add: mid_def)
  show ?thesis
    unfolding recommendReviewTiming_def f g by (simp add: round_def)
qed


end
